theory Spec2Isabelle
  imports Complex_Main
begin

section \<open>Volatility arbitrage: indicators and the per-instrument strategy\<close>

text \<open>
  A shallow embedding of \<^verbatim>\<open>Indicators.py\<close> and \<^verbatim>\<open>AssetStrategy.py\<close>.
  Prices, quantities and holding values are Python floats in the source; they are
  modelled as real numbers, so every comparison and every product is the exact one.
  The two values a float can take that no real number stands for, and that the source
  can produce (\<^verbatim>\<open>np.log\<close> of zero and of a negative number), are kept as constructors
  of their own.
\<close>

subsection \<open>Data\<close>

type_synonym symbol = string

datatype error = ZeroDivisionError | TypeError

text \<open>A bar of the data collection: \<^verbatim>\<open>data[symbol].EndTime\<close>, \<^verbatim>\<open>data[symbol].Close\<close>.\<close>

record TradeBar =
  EndTime :: nat
  Close :: real

text \<open>
  The data collection handed to \<^verbatim>\<open>Update\<close>. \<open>None\<close>: the symbol is not a key
  (\<^verbatim>\<open>symbol in data\<close> is false); \<open>Some None\<close>: the key is there and its entry is
  \<^verbatim>\<open>None\<close>; \<open>Some (Some bar)\<close>: the entry is a bar.
\<close>

type_synonym Slice = "symbol \<Rightarrow> TradeBar option option"

text \<open>A float stored in the window of returns.\<close>

datatype pyfloat = Fin real | NegInf | NaN

text \<open>
  The library indicators, as far as the source reads them: \<^verbatim>\<open>IsReady\<close> and the
  \<^verbatim>\<open>Current.Value\<close> of each line.
\<close>

record BollingerBands =
  bb_IsReady :: bool
  LowerBand :: real
  MiddleBand :: real
  UpperBand :: real

record RelativeStrengthIndex =
  rsi_IsReady :: bool
  rsi_Current :: real

record SimpleMovingAverage =
  sma_IsReady :: bool
  sma_Current :: real

text \<open>
  The wrapper classes of \<^verbatim>\<open>Indicators.py\<close>. The state of the wrapped library
  indicator is a type parameter: \<^verbatim>\<open>Update\<close> only hands the bar on to the library's
  own \<^verbatim>\<open>Update\<close>, which is a parameter of the model.
\<close>

record 'i CustomBollingerBands =
  cbb_symbol :: symbol
  bbands :: 'i

record 'i RSIIndicator =
  rsi_symbol :: symbol
  rsi :: 'i

record 'i TrendFilter =
  tf_symbol :: symbol
  sma :: 'i

text \<open>
  Modelled from the spec: \<^verbatim>\<open>RollingWindow\<close> is a library class, not part of the
  repository. It is the fixed-capacity buffer of section 3 of the specification: the
  last \<open>Size\<close> values in chronological order (here the most recent first, as index 0 of
  the library's window is the most recent value), the oldest evicted when a value is
  added at capacity, a count of the values ever added, and ready once \<open>Size\<close> values
  have been added.
\<close>

record RollingWindow =
  Size :: nat
  Samples :: nat
  items :: "pyfloat list"

definition RollingWindow_new :: "nat \<Rightarrow> RollingWindow" where
  "RollingWindow_new n = \<lparr>Size = n, Samples = 0, items = []\<rparr>"

definition Count :: "RollingWindow \<Rightarrow> nat" where
  "Count w = length (items w)"

definition Add :: "pyfloat \<Rightarrow> RollingWindow \<Rightarrow> RollingWindow" where
  "Add x w = w\<lparr>Samples := Samples w + 1, items := take (Size w) (x # items w)\<rparr>"

definition IsReady :: "RollingWindow \<Rightarrow> bool" where
  "IsReady w = (Size w \<le> Samples w)"

record HistoricalVolatility =
  hv_symbol :: symbol
  returns :: RollingWindow

text \<open>The account state the strategy reads through \<^verbatim>\<open>self.algorithm\<close>.\<close>

record security =
  Price :: "real option"

record holding =
  Quantity :: real
  AveragePrice :: real
  HoldingsValue :: real

text \<open>
  \<^verbatim>\<open>Securities[symbol]\<close> and \<^verbatim>\<open>Portfolio[symbol]\<close> are total: a strategy object
  exists only for a symbol of the universe (\<^verbatim>\<open>OnSecuritiesChanged\<close> creates and deletes
  it with the security). \<^verbatim>\<open>Portfolio.Values\<close> is the list of the holdings of the
  symbols in \<open>Portfolio_Keys\<close>.
\<close>

record algorithm =
  Securities :: "symbol \<Rightarrow> security"
  Portfolio :: "symbol \<Rightarrow> holding"
  Portfolio_Keys :: "symbol list"
  TotalPortfolioValue :: real

definition Portfolio_Values :: "algorithm \<Rightarrow> holding list" where
  "Portfolio_Values alg = map (Portfolio alg) (Portfolio_Keys alg)"

record AssetArbitrageStrategy =
  symbol :: symbol
  long_trade_size :: real
  short_trade_size :: real
  long_stop_loss :: real
  short_stop_loss :: real
  max_portfolio_exposure :: real

text \<open>The dictionary \<^verbatim>\<open>indicators\<close> that \<^verbatim>\<open>OnData\<close> passes to \<^verbatim>\<open>Execute\<close>.\<close>

record indicators =
  ind_contrarian_bands :: "BollingerBands CustomBollingerBands"
  ind_rsi :: "RelativeStrengthIndex RSIIndicator"
  ind_trend :: "SimpleMovingAverage TrendFilter"

text \<open>
  What \<^verbatim>\<open>Execute\<close> does to the outside: the calls it makes on the algorithm, in
  order. \<^verbatim>\<open>SetHoldings\<close> and \<^verbatim>\<open>Liquidate\<close> change the position; \<^verbatim>\<open>Debug\<close>
  only logs.
\<close>

datatype debug_msg =
    InvalidPrice symbol "real option"
  | ExposureExceeded symbol real
  | StopLossLong symbol real
  | StopLossShort symbol real

datatype call =
    Debug debug_msg
  | SetHoldings symbol real
  | Liquidate symbol

fun is_order :: "call \<Rightarrow> bool" where
  "is_order (Debug m) = False"
| "is_order (SetHoldings s f) = True"
| "is_order (Liquidate s) = True"

fun is_entry :: "call \<Rightarrow> bool" where
  "is_entry (SetHoldings s f) = True"
| "is_entry c = False"

definition orders :: "call list \<Rightarrow> call list" where
  "orders cs = filter is_order cs"

subsection \<open>Indicators.py\<close>

definition CBB_Update ::
  "(nat \<Rightarrow> real \<Rightarrow> 'i \<Rightarrow> 'i) \<Rightarrow> Slice \<Rightarrow> 'i CustomBollingerBands \<Rightarrow> 'i CustomBollingerBands" where
  "CBB_Update lib_Update data self =
     (case data (cbb_symbol self) of
        Some (Some bar) \<Rightarrow> self\<lparr>bbands := lib_Update (EndTime bar) (Close bar) (bbands self)\<rparr>
      | _ \<Rightarrow> self)"

definition CBB_HasSignal :: "BollingerBands CustomBollingerBands \<Rightarrow> bool" where
  "CBB_HasSignal self = bb_IsReady (bbands self)"

definition RSI_Update ::
  "(nat \<Rightarrow> real \<Rightarrow> 'i \<Rightarrow> 'i) \<Rightarrow> Slice \<Rightarrow> 'i RSIIndicator \<Rightarrow> 'i RSIIndicator" where
  "RSI_Update lib_Update data self =
     (case data (rsi_symbol self) of
        Some (Some bar) \<Rightarrow> self\<lparr>rsi := lib_Update (EndTime bar) (Close bar) (rsi self)\<rparr>
      | _ \<Rightarrow> self)"

definition RSI_HasSignal :: "RelativeStrengthIndex RSIIndicator \<Rightarrow> bool" where
  "RSI_HasSignal self = rsi_IsReady (rsi self)"

text \<open>
  \<^verbatim>\<open>np.log\<close> on a float: minus infinity at zero and not-a-number below (a warning,
  no exception).
\<close>

definition np_log :: "real \<Rightarrow> pyfloat" where
  "np_log x = (if 0 < x then Fin (ln x) else if x = 0 then NegInf else NaN)"

definition HistoricalVolatility_init :: "symbol \<Rightarrow> nat \<Rightarrow> HistoricalVolatility" where
  "HistoricalVolatility_init s period = \<lparr>hv_symbol = s, returns = RollingWindow_new period\<rparr>"

text \<open>
  \<^verbatim>\<open>HistoricalVolatility.Update\<close>. The window is not empty exactly when
  \<^verbatim>\<open>self.returns.Count > 0\<close>; then \<open>r0\<close> is \<^verbatim>\<open>self.returns[0]\<close>, the value added
  last. \<^verbatim>\<open>previous_price\<close> is that value unless it is zero, and then it is the current
  price. A comparison with not-a-number or minus infinity: \<^verbatim>\<open>!= 0\<close> is true,
  \<^verbatim>\<open>> 0\<close> is false.
\<close>

definition HV_Update :: "Slice \<Rightarrow> HistoricalVolatility \<Rightarrow> HistoricalVolatility" where
  "HV_Update data self =
     (case data (hv_symbol self) of
        Some (Some bar) \<Rightarrow>
          (let price = Close bar in
           case items (returns self) of
             r0 # older \<Rightarrow>
               (let previous_price = (if r0 \<noteq> Fin 0 then r0 else Fin price);
                    log_return =
                      (case previous_price of
                         Fin pp \<Rightarrow> if 0 < pp then np_log (price / pp) else Fin 0
                       | NegInf \<Rightarrow> Fin 0
                       | NaN \<Rightarrow> Fin 0)
                in self\<lparr>returns := Add log_return (returns self)\<rparr>)
           | [] \<Rightarrow> self\<lparr>returns := Add (Fin 0) (returns self)\<rparr>)
      | _ \<Rightarrow> self)"

fun is_Fin :: "pyfloat \<Rightarrow> bool" where
  "is_Fin (Fin x) = True"
| "is_Fin y = False"

fun the_Fin :: "pyfloat \<Rightarrow> real" where
  "the_Fin (Fin x) = x"
| "the_Fin y = 0"

definition mean :: "real list \<Rightarrow> real" where
  "mean xs = sum_list xs / real (length xs)"

text \<open>
  \<^verbatim>\<open>np.std\<close>: the population standard deviation; not-a-number on an empty list and
  on a list that holds a value that is not finite.
\<close>

definition np_std :: "pyfloat list \<Rightarrow> pyfloat" where
  "np_std fs =
     (if fs \<noteq> [] \<and> list_all is_Fin fs
      then (let xs = map the_Fin fs; m = mean xs
            in Fin (sqrt (mean (map (\<lambda>x. (x - m)\<^sup>2) xs))))
      else NaN)"

definition GetVolatility :: "HistoricalVolatility \<Rightarrow> pyfloat option" where
  "GetVolatility self =
     (if IsReady (returns self) then Some (np_std (items (returns self))) else None)"

definition HV_feed :: "HistoricalVolatility \<Rightarrow> Slice list \<Rightarrow> HistoricalVolatility" where
  "HV_feed self ds = foldl (\<lambda>s d. HV_Update d s) self ds"

definition TF_Update ::
  "(nat \<Rightarrow> real \<Rightarrow> 'i \<Rightarrow> 'i) \<Rightarrow> Slice \<Rightarrow> 'i TrendFilter \<Rightarrow> 'i TrendFilter" where
  "TF_Update lib_Update data self =
     (case data (tf_symbol self) of
        Some (Some bar) \<Rightarrow> self\<lparr>sma := lib_Update (EndTime bar) (Close bar) (sma self)\<rparr>
      | _ \<Rightarrow> self)"

text \<open>
  \<^verbatim>\<open>IsUptrend\<close> and \<^verbatim>\<open>IsDowntrend\<close> read the price of the filter's own symbol;
  comparing \<^verbatim>\<open>None\<close> with a float raises \<^verbatim>\<open>TypeError\<close>.
\<close>

definition IsUptrend :: "algorithm \<Rightarrow> SimpleMovingAverage TrendFilter \<Rightarrow> error + bool" where
  "IsUptrend alg self =
     (if sma_IsReady (sma self) then
        (case Price (Securities alg (tf_symbol self)) of
           None \<Rightarrow> Inl TypeError
         | Some price \<Rightarrow> Inr (sma_Current (sma self) < price))
      else Inr False)"

definition IsDowntrend :: "algorithm \<Rightarrow> SimpleMovingAverage TrendFilter \<Rightarrow> error + bool" where
  "IsDowntrend alg self =
     (if sma_IsReady (sma self) then
        (case Price (Securities alg (tf_symbol self)) of
           None \<Rightarrow> Inl TypeError
         | Some price \<Rightarrow> Inr (price < sma_Current (sma self)))
      else Inr False)"

subsection \<open>AssetStrategy.py\<close>

definition AssetArbitrageStrategy_init :: "symbol \<Rightarrow> AssetArbitrageStrategy" where
  "AssetArbitrageStrategy_init s =
     \<lparr>symbol = s, long_trade_size = 0.05, short_trade_size = 0.03,
      long_stop_loss = 0.05, short_stop_loss = 0.03, max_portfolio_exposure = 0.80\<rparr>"

text \<open>
  Line 55: the sum of \<^verbatim>\<open>HoldingsValue\<close> over \<^verbatim>\<open>Portfolio.Values\<close>, divided by
  \<^verbatim>\<open>TotalPortfolioValue\<close>; a float division by zero raises.
\<close>

definition portfolio_exposure :: "algorithm \<Rightarrow> error + real" where
  "portfolio_exposure alg =
     (if TotalPortfolioValue alg = 0 then Inl ZeroDivisionError
      else Inr (sum_list (map HoldingsValue (Portfolio_Values alg)) / TotalPortfolioValue alg))"

text \<open>Python's \<^verbatim>\<open>c and f()\<close>: \<^verbatim>\<open>f\<close> is called only when \<^verbatim>\<open>c\<close> is true.\<close>

definition py_and :: "bool \<Rightarrow> error + bool \<Rightarrow> error + bool" where
  "py_and c m = (if c then m else Inr False)"

text \<open>Lines 60 to 66: the long entry and, in its \<^verbatim>\<open>elif\<close>, the short entry.\<close>

definition entry_calls ::
  "algorithm \<Rightarrow> AssetArbitrageStrategy \<Rightarrow> indicators \<Rightarrow> real \<Rightarrow> real \<Rightarrow> error + call list" where
  "entry_calls alg self ind price holdings =
     (let bb = bbands (ind_contrarian_bands ind);
          rsi_value = rsi_Current (rsi (ind_rsi ind))
      in case py_and (holdings = 0 \<and> price < LowerBand bb \<and> rsi_value < 30)
                (IsUptrend alg (ind_trend ind)) of
           Inl e \<Rightarrow> Inl e
         | Inr True \<Rightarrow> Inr [SetHoldings (symbol self) (long_trade_size self)]
         | Inr False \<Rightarrow>
             (case py_and (holdings = 0 \<and> UpperBand bb < price \<and> 70 < rsi_value)
                     (IsDowntrend alg (ind_trend ind)) of
                Inl e \<Rightarrow> Inl e
              | Inr True \<Rightarrow> Inr [SetHoldings (symbol self) (- short_trade_size self)]
              | Inr False \<Rightarrow> Inr []))"

text \<open>Lines 68 to 84: four independent \<^verbatim>\<open>if\<close> statements, run one after the other.\<close>

definition long_stop_calls :: "AssetArbitrageStrategy \<Rightarrow> real \<Rightarrow> real \<Rightarrow> real \<Rightarrow> call list" where
  "long_stop_calls self price holdings average_price =
     (if 0 < holdings \<and> price < average_price * (1 - long_stop_loss self)
      then [Debug (StopLossLong (symbol self) price), Liquidate (symbol self)] else [])"

definition short_stop_calls :: "AssetArbitrageStrategy \<Rightarrow> real \<Rightarrow> real \<Rightarrow> real \<Rightarrow> call list" where
  "short_stop_calls self price holdings average_price =
     (if holdings < 0 \<and> average_price * (1 + short_stop_loss self) < price
      then [Debug (StopLossShort (symbol self) price), Liquidate (symbol self)] else [])"

definition long_exit_calls :: "AssetArbitrageStrategy \<Rightarrow> indicators \<Rightarrow> real \<Rightarrow> real \<Rightarrow> call list" where
  "long_exit_calls self ind price holdings =
     (if 0 < holdings \<and> MiddleBand (bbands (ind_contrarian_bands ind)) \<le> price
      then [Liquidate (symbol self)] else [])"

definition short_exit_calls :: "AssetArbitrageStrategy \<Rightarrow> indicators \<Rightarrow> real \<Rightarrow> real \<Rightarrow> call list" where
  "short_exit_calls self ind price holdings =
     (if holdings < 0 \<and> price \<le> MiddleBand (bbands (ind_contrarian_bands ind))
      then [Liquidate (symbol self)] else [])"

text \<open>
  \<^verbatim>\<open>AssetArbitrageStrategy.Execute\<close>: the calls made on the algorithm, or the
  exception raised (every exception of the method is raised before its first call). The
  strategy and the trend filter hold the same algorithm object, \<open>alg\<close>.
\<close>

definition Execute :: "algorithm \<Rightarrow> AssetArbitrageStrategy \<Rightarrow> indicators \<Rightarrow> error + call list" where
  "Execute alg self ind =
     (if \<not> CBB_HasSignal (ind_contrarian_bands ind) \<or> \<not> RSI_HasSignal (ind_rsi ind) then Inr []
      else
        (let holdings = Quantity (Portfolio alg (symbol self));
             average_price = AveragePrice (Portfolio alg (symbol self))
         in case Price (Securities alg (symbol self)) of
              None \<Rightarrow> Inr [Debug (InvalidPrice (symbol self) None)]
            | Some price \<Rightarrow>
                if price \<le> 0 then Inr [Debug (InvalidPrice (symbol self) (Some price))]
                else
                  (case portfolio_exposure alg of
                     Inl e \<Rightarrow> Inl e
                   | Inr exposure \<Rightarrow>
                       if max_portfolio_exposure self < exposure
                       then Inr [Debug (ExposureExceeded (symbol self) exposure)]
                       else
                         (case entry_calls alg self ind price holdings of
                            Inl e \<Rightarrow> Inl e
                          | Inr entry \<Rightarrow>
                              Inr (entry
                                   @ long_stop_calls self price holdings average_price
                                   @ short_stop_calls self price holdings average_price
                                   @ long_exit_calls self ind price holdings
                                   @ short_exit_calls self ind price holdings)))))"

subsection \<open>The specification's wording, for comparison\<close>

text \<open>
  Section 3 of the specification: the exposure ratio is the sum of the absolute holding
  values divided by the total value.
\<close>

definition spec_exposure_ratio :: "algorithm \<Rightarrow> real" where
  "spec_exposure_ratio alg =
     sum_list (map (\<lambda>h. \<bar>HoldingsValue h\<bar>) (Portfolio_Values alg)) / TotalPortfolioValue alg"

text \<open>
  Section 4.4 of the specification: the returns of a series of closes, in the order of
  the closes: zero for the first close, then the logarithm of each close divided by the
  one before it.
\<close>

fun log_returns_from :: "real \<Rightarrow> real list \<Rightarrow> real list" where
  "log_returns_from p [] = []"
| "log_returns_from p (c # cs) = ln (c / p) # log_returns_from c cs"

definition spec_log_returns :: "real list \<Rightarrow> real list" where
  "spec_log_returns closes =
     (case closes of [] \<Rightarrow> [] | c # cs \<Rightarrow> 0 # log_returns_from c cs)"


subsection \<open>Invariants of the window of returns\<close>

definition all_zero :: "HistoricalVolatility \<Rightarrow> bool" where
  "all_zero v = list_all (\<lambda>r. r = Fin 0) (items (returns v))"

definition window_ok :: "RollingWindow \<Rightarrow> bool" where
  "window_ok w = (length (items w) = min (Samples w) (Size w))"

subsection \<open>Concrete inputs\<close>

text \<open>
  The indicator set that \<^verbatim>\<open>OnSecuritiesChanged\<close> builds for a symbol: every wrapper
  carries that symbol.
\<close>

definition symbol_indicators ::
  "symbol \<Rightarrow> BollingerBands \<Rightarrow> RelativeStrengthIndex \<Rightarrow> SimpleMovingAverage \<Rightarrow> indicators" where
  "symbol_indicators s bb r m =
     \<lparr>ind_contrarian_bands = \<lparr>cbb_symbol = s, bbands = bb\<rparr>,
      ind_rsi = \<lparr>rsi_symbol = s, rsi = r\<rparr>,
      ind_trend = \<lparr>tf_symbol = s, sma = m\<rparr>\<rparr>"

text \<open>Ready indicators for SPY: the three bands, the oscillator and the average.\<close>

definition ready_indicators :: "real \<Rightarrow> real \<Rightarrow> real \<Rightarrow> real \<Rightarrow> real \<Rightarrow> indicators" where
  "ready_indicators lower middle upper rsi_value sma_value =
     symbol_indicators ''SPY''
       \<lparr>bb_IsReady = True, LowerBand = lower, MiddleBand = middle, UpperBand = upper\<rparr>
       \<lparr>rsi_IsReady = True, rsi_Current = rsi_value\<rparr>
       \<lparr>sma_IsReady = True, sma_Current = sma_value\<rparr>"

text \<open>An account that holds one instrument.\<close>

definition one_asset :: "symbol \<Rightarrow> real option \<Rightarrow> holding \<Rightarrow> real \<Rightarrow> algorithm" where
  "one_asset s p h tpv =
     \<lparr>Securities = (\<lambda>k. \<lparr>Price = p\<rparr>), Portfolio = (\<lambda>k. h),
      Portfolio_Keys = [s], TotalPortfolioValue = tpv\<rparr>"

text \<open>
  Ten units bought at 100 and now worth 94 each; ten units sold short at 100 and now
  worth 104 each; and no position.
\<close>

definition long_at_100 :: holding where
  "long_at_100 = \<lparr>Quantity = 10, AveragePrice = 100, HoldingsValue = 940\<rparr>"

definition short_at_100 :: holding where
  "short_at_100 = \<lparr>Quantity = - 10, AveragePrice = 100, HoldingsValue = - 1040\<rparr>"

definition flat :: holding where
  "flat = \<lparr>Quantity = 0, AveragePrice = 0, HoldingsValue = 0\<rparr>"

text \<open>An account long 500 of SPY and short 500 of QQQ, worth 1000 in all.\<close>

definition long_short :: algorithm where
  "long_short =
     \<lparr>Securities = (\<lambda>k. \<lparr>Price = Some 50\<rparr>),
      Portfolio = (\<lambda>k. if k = ''SPY''
                      then \<lparr>Quantity = 10, AveragePrice = 50, HoldingsValue = 500\<rparr>
                      else \<lparr>Quantity = - 10, AveragePrice = 50, HoldingsValue = - 500\<rparr>),
      Portfolio_Keys = [''SPY'', ''QQQ''], TotalPortfolioValue = 1000\<rparr>"

text \<open>An account with no position in SPY and 850 of its 1000 in QQQ.\<close>

definition flat_and_crowded :: algorithm where
  "flat_and_crowded =
     \<lparr>Securities = (\<lambda>k. \<lparr>Price = Some 18\<rparr>),
      Portfolio = (\<lambda>k. if k = ''SPY'' then flat
                      else \<lparr>Quantity = 5, AveragePrice = 170, HoldingsValue = 850\<rparr>),
      Portfolio_Keys = [''SPY'', ''QQQ''], TotalPortfolioValue = 1000\<rparr>"

text \<open>A data collection with one bar, for one symbol.\<close>

definition single_bar :: "symbol \<Rightarrow> real \<Rightarrow> Slice" where
  "single_bar s c = (\<lambda>k. if k = s then Some (Some \<lparr>EndTime = 0, Close = c\<rparr>) else None)"

text \<open>A stand-in for the library's update of an indicator: the new close is its value.\<close>

definition bb_follow :: "nat \<Rightarrow> real \<Rightarrow> BollingerBands \<Rightarrow> BollingerBands" where
  "bb_follow t c b = \<lparr>bb_IsReady = True, LowerBand = c, MiddleBand = c, UpperBand = c\<rparr>"

definition rsi_follow :: "nat \<Rightarrow> real \<Rightarrow> RelativeStrengthIndex \<Rightarrow> RelativeStrengthIndex" where
  "rsi_follow t c r = \<lparr>rsi_IsReady = True, rsi_Current = c\<rparr>"

definition sma_follow :: "nat \<Rightarrow> real \<Rightarrow> SimpleMovingAverage \<Rightarrow> SimpleMovingAverage" where
  "sma_follow t c m = \<lparr>sma_IsReady = True, sma_Current = c\<rparr>"

section \<open>Properties\<close>

lemmas Execute_defs =
  Execute_def entry_calls_def long_stop_calls_def short_stop_calls_def
  long_exit_calls_def short_exit_calls_def py_and_def

lemmas example_defs =
  symbol_indicators_def ready_indicators_def one_asset_def long_at_100_def short_at_100_def
  flat_def
  AssetArbitrageStrategy_init_def CBB_HasSignal_def RSI_HasSignal_def
  IsUptrend_def IsDowntrend_def portfolio_exposure_def Portfolio_Values_def

subsection \<open>The shape of an evaluation\<close>

lemma entry_calls_cases:
  assumes "entry_calls alg self ind price holdings = Inr entry"
  shows "entry = []
         \<or> (holdings = 0 \<and> (entry = [SetHoldings (symbol self) (long_trade_size self)]
              \<or> entry = [SetHoldings (symbol self) (- short_trade_size self)]))"
  using assms
  by (auto simp: entry_calls_def py_and_def Let_def split: if_splits sum.splits bool.splits)

lemma entry_calls_not_flat:
  "holdings \<noteq> 0 \<Longrightarrow> entry_calls alg self ind price holdings = Inr []"
  by (simp add: entry_calls_def py_and_def Let_def)

lemma Execute_cases:
  assumes "Execute alg self ind = Inr calls"
  shows "calls = []
         \<or> calls = [Debug (InvalidPrice (symbol self) (Price (Securities alg (symbol self))))]
         \<or> (\<exists>exposure. calls = [Debug (ExposureExceeded (symbol self) exposure)])
         \<or> (\<exists>price entry.
               Price (Securities alg (symbol self)) = Some price \<and>
               entry_calls alg self ind price (Quantity (Portfolio alg (symbol self))) = Inr entry \<and>
               calls = entry
                 @ long_stop_calls self price (Quantity (Portfolio alg (symbol self)))
                     (AveragePrice (Portfolio alg (symbol self)))
                 @ short_stop_calls self price (Quantity (Portfolio alg (symbol self)))
                     (AveragePrice (Portfolio alg (symbol self)))
                 @ long_exit_calls self ind price (Quantity (Portfolio alg (symbol self)))
                 @ short_exit_calls self ind price (Quantity (Portfolio alg (symbol self))))"
  using assms
  by (auto simp: Execute_def Let_def split: if_splits option.splits sum.splits)

lemma Execute_passed:
  assumes "CBB_HasSignal (ind_contrarian_bands ind)" and "RSI_HasSignal (ind_rsi ind)"
    and "Price (Securities alg (symbol self)) = Some price" and "0 < price"
    and "portfolio_exposure alg = Inr exposure" and "exposure \<le> max_portfolio_exposure self"
  shows "Execute alg self ind =
           (case entry_calls alg self ind price (Quantity (Portfolio alg (symbol self))) of
              Inl e \<Rightarrow> Inl e
            | Inr entry \<Rightarrow>
                Inr (entry
                  @ long_stop_calls self price (Quantity (Portfolio alg (symbol self)))
                      (AveragePrice (Portfolio alg (symbol self)))
                  @ short_stop_calls self price (Quantity (Portfolio alg (symbol self)))
                      (AveragePrice (Portfolio alg (symbol self)))
                  @ long_exit_calls self ind price (Quantity (Portfolio alg (symbol self)))
                  @ short_exit_calls self ind price (Quantity (Portfolio alg (symbol self)))))"
  using assms by (simp add: Execute_def Let_def)

lemma filter_entry_exits:
  "filter is_entry (long_stop_calls self price holdings average_price) = []"
  "filter is_entry (short_stop_calls self price holdings average_price) = []"
  "filter is_entry (long_exit_calls self ind price holdings) = []"
  "filter is_entry (short_exit_calls self ind price holdings) = []"
  by (simp_all add: long_stop_calls_def short_stop_calls_def long_exit_calls_def
        short_exit_calls_def)

lemma exit_calls_flat:
  "long_stop_calls self price 0 average_price = []"
  "short_stop_calls self price 0 average_price = []"
  "long_exit_calls self ind price 0 = []"
  "short_exit_calls self ind price 0 = []"
  by (simp_all add: long_stop_calls_def short_stop_calls_def long_exit_calls_def
        short_exit_calls_def)

lemma orders_exits:
  "orders (long_stop_calls self price holdings average_price
     @ short_stop_calls self price holdings average_price
     @ long_exit_calls self ind price holdings
     @ short_exit_calls self ind price holdings)
   \<in> {[], [Liquidate (symbol self)], [Liquidate (symbol self), Liquidate (symbol self)]}"
  by (simp add: orders_def long_stop_calls_def short_stop_calls_def long_exit_calls_def
        short_exit_calls_def)


lemma Execute_guards:
  assumes "Execute alg self ind = Inr calls" and "orders calls \<noteq> []"
  shows "CBB_HasSignal (ind_contrarian_bands ind) \<and> RSI_HasSignal (ind_rsi ind)
         \<and> (\<exists>price exposure. Price (Securities alg (symbol self)) = Some price \<and> 0 < price
               \<and> portfolio_exposure alg = Inr exposure
               \<and> exposure \<le> max_portfolio_exposure self)"
  using assms
  by (auto simp: Execute_def Let_def orders_def split: if_splits option.splits sum.splits)

lemma Execute_passed_not_flat:
  assumes "CBB_HasSignal (ind_contrarian_bands ind)" and "RSI_HasSignal (ind_rsi ind)"
    and "Price (Securities alg (symbol self)) = Some price" and "0 < price"
    and "portfolio_exposure alg = Inr exposure" and "exposure \<le> max_portfolio_exposure self"
    and "Quantity (Portfolio alg (symbol self)) \<noteq> 0"
  shows "Execute alg self ind =
           Inr (long_stop_calls self price (Quantity (Portfolio alg (symbol self)))
                  (AveragePrice (Portfolio alg (symbol self)))
                @ short_stop_calls self price (Quantity (Portfolio alg (symbol self)))
                    (AveragePrice (Portfolio alg (symbol self)))
                @ long_exit_calls self ind price (Quantity (Portfolio alg (symbol self)))
                @ short_exit_calls self ind price (Quantity (Portfolio alg (symbol self))))"
  using assms by (simp add: Execute_passed entry_calls_not_flat)

text \<open>
  The four statements of lines 68 to 84 issue two \<^verbatim>\<open>Liquidate\<close> calls exactly when the
  stop-loss and the exit of the same side both hold.
\<close>

lemma orders_exits_two:
  "orders (long_stop_calls self price holdings average_price
     @ short_stop_calls self price holdings average_price
     @ long_exit_calls self ind price holdings
     @ short_exit_calls self ind price holdings)
   = [Liquidate (symbol self), Liquidate (symbol self)]
   \<longleftrightarrow> (0 < holdings \<and> price < average_price * (1 - long_stop_loss self)
          \<and> MiddleBand (bbands (ind_contrarian_bands ind)) \<le> price)
       \<or> (holdings < 0 \<and> average_price * (1 + short_stop_loss self) < price
          \<and> price \<le> MiddleBand (bbands (ind_contrarian_bands ind)))"
  by (auto simp: orders_def long_stop_calls_def short_stop_calls_def long_exit_calls_def
        short_exit_calls_def)

lemma Execute_two_liquidates:
  assumes x: "Execute alg self ind = Inr calls"
  shows "orders calls = [Liquidate (symbol self), Liquidate (symbol self)]
         \<longleftrightarrow> CBB_HasSignal (ind_contrarian_bands ind) \<and> RSI_HasSignal (ind_rsi ind)
             \<and> (\<exists>price exposure.
                   Price (Securities alg (symbol self)) = Some price \<and> 0 < price
                   \<and> portfolio_exposure alg = Inr exposure
                   \<and> exposure \<le> max_portfolio_exposure self
                   \<and> ((0 < Quantity (Portfolio alg (symbol self))
                        \<and> price < AveragePrice (Portfolio alg (symbol self))
                                    * (1 - long_stop_loss self)
                        \<and> MiddleBand (bbands (ind_contrarian_bands ind)) \<le> price)
                      \<or> (Quantity (Portfolio alg (symbol self)) < 0
                        \<and> AveragePrice (Portfolio alg (symbol self))
                             * (1 + short_stop_loss self) < price
                        \<and> price \<le> MiddleBand (bbands (ind_contrarian_bands ind)))))"
    (is "?L \<longleftrightarrow> ?R")
proof
  assume l: ?L
  then have "orders calls \<noteq> []" by simp
  from Execute_guards [OF x this] obtain price exposure where
    g: "CBB_HasSignal (ind_contrarian_bands ind)" "RSI_HasSignal (ind_rsi ind)"
       "Price (Securities alg (symbol self)) = Some price" "0 < price"
       "portfolio_exposure alg = Inr exposure" "exposure \<le> max_portfolio_exposure self"
    by blast
  have nf: "Quantity (Portfolio alg (symbol self)) \<noteq> 0"
  proof
    assume f: "Quantity (Portfolio alg (symbol self)) = 0"
    from Execute_passed [OF g] x f have "length (orders calls) \<le> 1"
      by (auto simp: exit_calls_flat entry_calls_def py_and_def Let_def orders_def
            split: sum.splits bool.splits if_splits)
    with l show False by simp
  qed
  from Execute_passed_not_flat [OF g nf] x l orders_exits_two [of self price
      "Quantity (Portfolio alg (symbol self))" "AveragePrice (Portfolio alg (symbol self))" ind]
  have "(0 < Quantity (Portfolio alg (symbol self))
           \<and> price < AveragePrice (Portfolio alg (symbol self)) * (1 - long_stop_loss self)
           \<and> MiddleBand (bbands (ind_contrarian_bands ind)) \<le> price)
        \<or> (Quantity (Portfolio alg (symbol self)) < 0
           \<and> AveragePrice (Portfolio alg (symbol self)) * (1 + short_stop_loss self) < price
           \<and> price \<le> MiddleBand (bbands (ind_contrarian_bands ind)))"
    by simp
  with g show ?R by blast
next
  assume r: ?R
  then obtain price exposure where
    g: "CBB_HasSignal (ind_contrarian_bands ind)" "RSI_HasSignal (ind_rsi ind)"
       "Price (Securities alg (symbol self)) = Some price" "0 < price"
       "portfolio_exposure alg = Inr exposure" "exposure \<le> max_portfolio_exposure self"
    and c: "(0 < Quantity (Portfolio alg (symbol self))
           \<and> price < AveragePrice (Portfolio alg (symbol self)) * (1 - long_stop_loss self)
           \<and> MiddleBand (bbands (ind_contrarian_bands ind)) \<le> price)
        \<or> (Quantity (Portfolio alg (symbol self)) < 0
           \<and> AveragePrice (Portfolio alg (symbol self)) * (1 + short_stop_loss self) < price
           \<and> price \<le> MiddleBand (bbands (ind_contrarian_bands ind)))"
    by blast
  from c have nf: "Quantity (Portfolio alg (symbol self)) \<noteq> 0" by auto
  from Execute_passed_not_flat [OF g nf] x c orders_exits_two [of self price
      "Quantity (Portfolio alg (symbol self))" "AveragePrice (Portfolio alg (symbol self))" ind]
  show ?L by simp
qed

text \<open>
  The short side of lines 73 to 76 and 82 to 84: a short position whose price is above
  its stop-loss level is liquidated, and liquidated a second time when the price is also
  at or below the middle band.
\<close>

lemma Execute_short_stop_loss:
  assumes "CBB_HasSignal (ind_contrarian_bands ind)" and "RSI_HasSignal (ind_rsi ind)"
    and "Price (Securities alg (symbol self)) = Some price" and "0 < price"
    and "portfolio_exposure alg = Inr exposure" and "exposure \<le> max_portfolio_exposure self"
    and "Quantity (Portfolio alg (symbol self)) < 0"
    and "AveragePrice (Portfolio alg (symbol self)) * (1 + short_stop_loss self) < price"
  shows "Execute alg self ind =
           Inr (Debug (StopLossShort (symbol self) price) # Liquidate (symbol self) #
                (if price \<le> MiddleBand (bbands (ind_contrarian_bands ind))
                 then [Liquidate (symbol self)] else []))"
  using assms
  by (simp add: Execute_passed entry_calls_not_flat long_stop_calls_def short_stop_calls_def
        long_exit_calls_def short_exit_calls_def)

text \<open>Without a stop-loss, the middle-band exit alone issues one \<^verbatim>\<open>Liquidate\<close>.\<close>

lemma Execute_exit_only:
  assumes "CBB_HasSignal (ind_contrarian_bands ind)" and "RSI_HasSignal (ind_rsi ind)"
    and "Price (Securities alg (symbol self)) = Some price" and "0 < price"
    and "portfolio_exposure alg = Inr exposure" and "exposure \<le> max_portfolio_exposure self"
    and "(0 < Quantity (Portfolio alg (symbol self))
          \<and> AveragePrice (Portfolio alg (symbol self)) * (1 - long_stop_loss self) \<le> price
          \<and> MiddleBand (bbands (ind_contrarian_bands ind)) \<le> price)
         \<or> (Quantity (Portfolio alg (symbol self)) < 0
          \<and> price \<le> AveragePrice (Portfolio alg (symbol self)) * (1 + short_stop_loss self)
          \<and> price \<le> MiddleBand (bbands (ind_contrarian_bands ind)))"
  shows "Execute alg self ind = Inr [Liquidate (symbol self)]"
  using assms
  by (auto simp: Execute_passed entry_calls_not_flat long_stop_calls_def short_stop_calls_def
        long_exit_calls_def short_exit_calls_def)

subsection \<open>The exposure gate\<close>

text \<open>
  Claim C1, as the specification states it, fails on the code: the exposure gate of
  lines 56 to 58 returns before the stop-loss and exit statements are reached. Here the
  exposure ratio 0.94 exceeds 0.80, the position is long, the price 94 is below the
  stop-loss level 95 and at or above the middle band 90, and the evaluation only logs:
  no \<^verbatim>\<open>Liquidate\<close> is issued.
\<close>

theorem exposure_gate_blocks_liquidate:
  "portfolio_exposure (one_asset ''SPY'' (Some 94) long_at_100 1000) = Inr (47 / 50)
   \<and> max_portfolio_exposure (AssetArbitrageStrategy_init ''SPY'') < 47 / 50
   \<and> 0 < Quantity long_at_100
   \<and> 94 < AveragePrice long_at_100 * (1 - long_stop_loss (AssetArbitrageStrategy_init ''SPY''))
   \<and> MiddleBand (bbands (ind_contrarian_bands (ready_indicators 80 90 100 50 95))) \<le> 94
   \<and> Execute (one_asset ''SPY'' (Some 94) long_at_100 1000)
        (AssetArbitrageStrategy_init ''SPY'') (ready_indicators 80 90 100 50 95)
      = Inr [Debug (ExposureExceeded ''SPY'' (47 / 50))]
   \<and> Liquidate ''SPY'' \<notin> set [Debug (ExposureExceeded ''SPY'' (47 / 50))]"
  by (simp add: example_defs Execute_def Let_def)

text \<open>
  Claim C1, amended: in every evaluation that passes the readiness and price checks and
  in which the exposure ratio exceeds the maximum, the engine logs the skip and returns:
  no entry, no stop-loss \<^verbatim>\<open>Liquidate\<close> and no middle-band exit \<^verbatim>\<open>Liquidate\<close> is
  issued, whatever the position and the price are.
\<close>

theorem Execute_over_exposure:
  assumes "CBB_HasSignal (ind_contrarian_bands ind)" and "RSI_HasSignal (ind_rsi ind)"
    and "Price (Securities alg (symbol self)) = Some price" and "0 < price"
    and "portfolio_exposure alg = Inr exposure" and "max_portfolio_exposure self < exposure"
  shows "Execute alg self ind = Inr [Debug (ExposureExceeded (symbol self) exposure)]
         \<and> orders [Debug (ExposureExceeded (symbol self) exposure)] = []"
  using assms by (simp add: Execute_def Let_def orders_def)

text \<open>
  The scenario of the specification: every entry condition holds (no position, price 18
  below the lower band 19, oscillator 25, uptrend) and the exposure ratio is 0.85.
\<close>

theorem Execute_over_exposure_witness:
  "Execute flat_and_crowded (AssetArbitrageStrategy_init ''SPY'') (ready_indicators 19 20 21 25 17)
   = Inr [Debug (ExposureExceeded ''SPY'' (17 / 20))]"
proof -
  have e: "portfolio_exposure flat_and_crowded = Inr (17 / 20)"
    by (simp add: flat_and_crowded_def flat_def portfolio_exposure_def Portfolio_Values_def)
  show ?thesis
    using Execute_over_exposure [of "ready_indicators 19 20 21 25 17" flat_and_crowded
        "AssetArbitrageStrategy_init ''SPY''" 18 "17 / 20"] e
    by (simp add: example_defs flat_and_crowded_def)
qed

subsection \<open>How many actions an evaluation emits\<close>

text \<open>
  Claim C2, as the specification states it, fails on the code: the stop-loss statement
  and the exit statement are two independent \<^verbatim>\<open>if\<close> statements. For a long position
  bought at 100, at the price 94 with the middle band at 90, both conditions hold and
  \<^verbatim>\<open>Liquidate\<close> is called twice in the one evaluation.
\<close>

theorem stop_loss_and_exit_liquidate_twice:
  "Execute (one_asset ''SPY'' (Some 94) long_at_100 2000)
     (AssetArbitrageStrategy_init ''SPY'') (ready_indicators 80 90 100 50 95)
   = Inr [Debug (StopLossLong ''SPY'' 94), Liquidate ''SPY'', Liquidate ''SPY'']
   \<and> length (orders [Debug (StopLossLong ''SPY'' 94), Liquidate ''SPY'', Liquidate ''SPY'']) = 2"
  by (simp add: example_defs Execute_defs Let_def orders_def)

text \<open>
  Claim C2, amended: the position-changing calls of a single evaluation are none, or one
  entry (long or short), or one \<^verbatim>\<open>Liquidate\<close>, or two \<^verbatim>\<open>Liquidate\<close> calls for the
  same instrument. So an evaluation makes at most one entry, never an entry together
  with a \<^verbatim>\<open>Liquidate\<close>, and at most two calls in all. Two \<^verbatim>\<open>Liquidate\<close> calls are
  issued exactly when the evaluation passes the readiness, price and exposure checks and
  either the position is long with the price below its stop-loss level and at or above
  the middle band, or the position is short with the price above its stop-loss level and
  at or below the middle band.
\<close>

theorem Execute_orders:
  assumes "Execute alg self ind = Inr calls"
  shows "orders calls \<in>
           {[], [SetHoldings (symbol self) (long_trade_size self)],
            [SetHoldings (symbol self) (- short_trade_size self)],
            [Liquidate (symbol self)],
            [Liquidate (symbol self), Liquidate (symbol self)]}
         \<and> (orders calls = [Liquidate (symbol self), Liquidate (symbol self)]
              \<longleftrightarrow> CBB_HasSignal (ind_contrarian_bands ind) \<and> RSI_HasSignal (ind_rsi ind)
                  \<and> (\<exists>price exposure.
                        Price (Securities alg (symbol self)) = Some price \<and> 0 < price
                        \<and> portfolio_exposure alg = Inr exposure
                        \<and> exposure \<le> max_portfolio_exposure self
                        \<and> ((0 < Quantity (Portfolio alg (symbol self))
                             \<and> price < AveragePrice (Portfolio alg (symbol self))
                                         * (1 - long_stop_loss self)
                             \<and> MiddleBand (bbands (ind_contrarian_bands ind)) \<le> price)
                           \<or> (Quantity (Portfolio alg (symbol self)) < 0
                             \<and> AveragePrice (Portfolio alg (symbol self))
                                  * (1 + short_stop_loss self) < price
                             \<and> price \<le> MiddleBand (bbands (ind_contrarian_bands ind))))))"
proof (rule conjI)
  from Execute_cases [OF assms]
  show "orders calls \<in>
           {[], [SetHoldings (symbol self) (long_trade_size self)],
            [SetHoldings (symbol self) (- short_trade_size self)],
            [Liquidate (symbol self)],
            [Liquidate (symbol self), Liquidate (symbol self)]}"
  proof (elim disjE exE conjE)
    fix price entry
    assume e: "entry_calls alg self ind price (Quantity (Portfolio alg (symbol self))) = Inr entry"
      and c: "calls = entry
                 @ long_stop_calls self price (Quantity (Portfolio alg (symbol self)))
                     (AveragePrice (Portfolio alg (symbol self)))
                 @ short_stop_calls self price (Quantity (Portfolio alg (symbol self)))
                     (AveragePrice (Portfolio alg (symbol self)))
                 @ long_exit_calls self ind price (Quantity (Portfolio alg (symbol self)))
                 @ short_exit_calls self ind price (Quantity (Portfolio alg (symbol self)))"
    from entry_calls_cases [OF e] show ?thesis
    proof
      assume n: "entry = []"
      have "orders calls \<in>
              {[], [Liquidate (symbol self)], [Liquidate (symbol self), Liquidate (symbol self)]}"
        unfolding c n append_Nil by (rule orders_exits)
      then show ?thesis by blast
    next
      assume "Quantity (Portfolio alg (symbol self)) = 0 \<and>
        (entry = [SetHoldings (symbol self) (long_trade_size self)]
         \<or> entry = [SetHoldings (symbol self) (- short_trade_size self)])"
      with c show ?thesis by (auto simp: exit_calls_flat orders_def)
    qed
  qed (simp_all add: orders_def)
next
  show "orders calls = [Liquidate (symbol self), Liquidate (symbol self)]
        \<longleftrightarrow> CBB_HasSignal (ind_contrarian_bands ind) \<and> RSI_HasSignal (ind_rsi ind)
            \<and> (\<exists>price exposure.
                  Price (Securities alg (symbol self)) = Some price \<and> 0 < price
                  \<and> portfolio_exposure alg = Inr exposure
                  \<and> exposure \<le> max_portfolio_exposure self
                  \<and> ((0 < Quantity (Portfolio alg (symbol self))
                       \<and> price < AveragePrice (Portfolio alg (symbol self))
                                   * (1 - long_stop_loss self)
                       \<and> MiddleBand (bbands (ind_contrarian_bands ind)) \<le> price)
                     \<or> (Quantity (Portfolio alg (symbol self)) < 0
                       \<and> AveragePrice (Portfolio alg (symbol self))
                            * (1 + short_stop_loss self) < price
                       \<and> price \<le> MiddleBand (bbands (ind_contrarian_bands ind)))))"
    using assms by (rule Execute_two_liquidates)
qed

text \<open>
  A short position sold at 100, at the price 104 (above the stop-loss level 103) with the
  middle band at 110: two \<^verbatim>\<open>Liquidate\<close> calls, as on the long side. With the middle
  band at 100 the exit does not hold and the stop-loss alone issues one.
\<close>

theorem Execute_orders_witness:
  "Execute (one_asset ''SPY'' (Some 104) short_at_100 2000)
     (AssetArbitrageStrategy_init ''SPY'') (ready_indicators 100 110 120 50 105)
   = Inr [Debug (StopLossShort ''SPY'' 104), Liquidate ''SPY'', Liquidate ''SPY'']
   \<and> orders [Debug (StopLossShort ''SPY'' 104), Liquidate ''SPY'', Liquidate ''SPY'']
     = [Liquidate ''SPY'', Liquidate ''SPY'']
   \<and> Execute (one_asset ''SPY'' (Some 104) short_at_100 2000)
       (AssetArbitrageStrategy_init ''SPY'') (ready_indicators 90 100 110 50 105)
     = Inr [Debug (StopLossShort ''SPY'' 104), Liquidate ''SPY'']
   \<and> orders [Debug (StopLossShort ''SPY'' 104), Liquidate ''SPY''] \<noteq> [Liquidate ''SPY'', Liquidate ''SPY'']"
proof -
  have x: "Execute (one_asset ''SPY'' (Some 104) short_at_100 2000)
     (AssetArbitrageStrategy_init ''SPY'') (ready_indicators 100 110 120 50 105)
   = Inr [Debug (StopLossShort ''SPY'' 104), Liquidate ''SPY'', Liquidate ''SPY'']"
    by (simp add: example_defs Execute_defs Let_def)
  have y: "Execute (one_asset ''SPY'' (Some 104) short_at_100 2000)
       (AssetArbitrageStrategy_init ''SPY'') (ready_indicators 90 100 110 50 105)
     = Inr [Debug (StopLossShort ''SPY'' 104), Liquidate ''SPY'']"
    by (simp add: example_defs Execute_defs Let_def)
  from Execute_orders [OF x] Execute_orders [OF y] x y show ?thesis
    by (simp add: orders_def)
qed

subsection \<open>The exposure ratio\<close>

text \<open>
  Claim C3, as the specification states it, fails on the code: line 55 sums the holding
  values with their signs. For an account long 500 and short 500 with a total value of
  1000 the code's ratio is 0, and the sum of the absolute values over the total is 1.
\<close>

theorem exposure_is_not_absolute:
  "portfolio_exposure long_short = Inr 0 \<and> spec_exposure_ratio long_short = 1"
  by (simp add: long_short_def portfolio_exposure_def spec_exposure_ratio_def
        Portfolio_Values_def)

text \<open>
  Claim C3, amended: for every portfolio snapshot with a total value other than zero,
  the exposure ratio used by the gate is the sum of the signed per-instrument holding
  values divided by the total portfolio value; it is the sum of the absolute values over
  the total when no holding value is negative.
\<close>

theorem portfolio_exposure_signed:
  assumes "TotalPortfolioValue alg \<noteq> 0"
  shows "portfolio_exposure alg
           = Inr (sum_list (map HoldingsValue (Portfolio_Values alg)) / TotalPortfolioValue alg)
         \<and> ((\<forall>h \<in> set (Portfolio_Values alg). 0 \<le> HoldingsValue h)
              \<longrightarrow> portfolio_exposure alg = Inr (spec_exposure_ratio alg))"
proof -
  have "(\<forall>h \<in> set hs. 0 \<le> HoldingsValue h)
        \<Longrightarrow> sum_list (map (\<lambda>h. \<bar>HoldingsValue h\<bar>) hs) = sum_list (map HoldingsValue hs)"
    for hs :: "holding list"
    by (induction hs) auto
  with assms show ?thesis
    by (simp add: portfolio_exposure_def spec_exposure_ratio_def)
qed

theorem portfolio_exposure_signed_witness:
  "portfolio_exposure (one_asset ''SPY'' (Some 94) long_at_100 2000) = Inr (47 / 100)
   \<and> spec_exposure_ratio (one_asset ''SPY'' (Some 94) long_at_100 2000) = 47 / 100"
proof -
  let ?alg = "one_asset ''SPY'' (Some 94) long_at_100 2000"
  have t: "TotalPortfolioValue ?alg \<noteq> 0"
    by (simp add: one_asset_def)
  have n: "\<forall>h \<in> set (Portfolio_Values ?alg). 0 \<le> HoldingsValue h"
    by (simp add: one_asset_def long_at_100_def Portfolio_Values_def)
  have v: "sum_list (map HoldingsValue (Portfolio_Values ?alg)) / TotalPortfolioValue ?alg
           = 47 / 100"
    by (simp add: one_asset_def long_at_100_def Portfolio_Values_def)
  from portfolio_exposure_signed [OF t] n
  have a: "portfolio_exposure ?alg
             = Inr (sum_list (map HoldingsValue (Portfolio_Values ?alg)) / TotalPortfolioValue ?alg)"
    and b: "portfolio_exposure ?alg = Inr (spec_exposure_ratio ?alg)"
    by blast+
  from a have c: "portfolio_exposure ?alg = Inr (47 / 100)"
    unfolding v .
  with b have "spec_exposure_ratio ?alg = 47 / 100"
    by simp
  with c show ?thesis by blast
qed


subsection \<open>The volatility estimator\<close>

lemma list_all_take: "list_all P xs \<Longrightarrow> list_all P (take n xs)"
  by (auto simp: list_all_iff dest: in_set_takeD)

lemma Add_zero:
  "list_all (\<lambda>r. r = Fin 0) (items w) \<Longrightarrow> list_all (\<lambda>r. r = Fin 0) (items (Add (Fin 0) w))"
  unfolding Add_def by (cases "Size w") (simp_all add: list_all_take)

text \<open>
  Once the window holds only zeros, \<^verbatim>\<open>self.returns[0]\<close> is zero, so
  \<^verbatim>\<open>previous_price\<close> is the current price and the value added is the logarithm of one,
  or the zero of the \<^verbatim>\<open>else\<close> branch when the price is not positive.
\<close>

lemma HV_Update_appends_zero:
  assumes "all_zero v" and "data (hv_symbol v) = Some (Some bar)"
  shows "HV_Update data v = v\<lparr>returns := Add (Fin 0) (returns v)\<rparr>"
proof (cases "items (returns v)")
  case Nil
  with assms show ?thesis by (simp add: HV_Update_def)
next
  case (Cons r0 older)
  with assms have "r0 = Fin 0" by (simp add: all_zero_def)
  with Cons assms show ?thesis by (simp add: HV_Update_def np_log_def Let_def)
qed

lemma HV_Update_all_zero:
  assumes z: "all_zero v"
  shows "all_zero (HV_Update data v)"
proof (cases "\<exists>bar. data (hv_symbol v) = Some (Some bar)")
  case True
  then obtain bar where b: "data (hv_symbol v) = Some (Some bar)" by blast
  have "HV_Update data v = v\<lparr>returns := Add (Fin 0) (returns v)\<rparr>"
    using z b by (rule HV_Update_appends_zero)
  with z show ?thesis
    by (simp add: all_zero_def Add_zero)
next
  case False
  then have "HV_Update data v = v"
    by (auto simp: HV_Update_def split: option.splits)
  with z show ?thesis by simp
qed

lemma HV_feed_all_zero: "all_zero v \<Longrightarrow> all_zero (HV_feed v ds)"
  unfolding HV_feed_def
  by (induction ds arbitrary: v) (simp_all add: HV_Update_all_zero)

text \<open>
  Claim C4 fails on the code, which reads the previous close from the window of
  returns: \<^verbatim>\<open>previous_price = self.returns[0]\<close>. For every sequence of data
  collections fed to a new estimator, every value in the window is zero: the logarithm
  of the current close over the previous close is never stored.
\<close>

theorem HV_returns_always_zero:
  "list_all (\<lambda>r. r = Fin 0) (items (returns (HV_feed (HistoricalVolatility_init s period) ds)))"
proof -
  have "all_zero (HistoricalVolatility_init s period)"
    by (simp add: all_zero_def HistoricalVolatility_init_def RollingWindow_new_def)
  from HV_feed_all_zero [OF this] show ?thesis by (simp add: all_zero_def)
qed

lemma feed_100_110:
  "HV_feed (HistoricalVolatility_init ''SPY'' 2) [single_bar ''SPY'' 100, single_bar ''SPY'' 110]
   = \<lparr>hv_symbol = ''SPY'', returns = \<lparr>Size = 2, Samples = 2, items = [Fin 0, Fin 0]\<rparr>\<rparr>"
  by (simp add: HV_feed_def HV_Update_def HistoricalVolatility_init_def RollingWindow_new_def
        single_bar_def Add_def np_log_def)

text \<open>
  The closes 100 and 110 with a period of 2: the window is two zeros and the volatility
  is zero, where the returns of the specification are zero and the logarithm of 1.1.
\<close>

theorem HV_returns_always_zero_witness:
  "items (returns (HV_feed (HistoricalVolatility_init ''SPY'' 2)
       [single_bar ''SPY'' 100, single_bar ''SPY'' 110])) = [Fin 0, Fin 0]
   \<and> GetVolatility (HV_feed (HistoricalVolatility_init ''SPY'' 2)
       [single_bar ''SPY'' 100, single_bar ''SPY'' 110]) = Some (Fin 0)
   \<and> rev (spec_log_returns [100, 110]) = [ln (110 / 100), 0]
   \<and> ln (110 / 100) \<noteq> (0::real)"
  using HV_returns_always_zero [of "''SPY''" 2 "[single_bar ''SPY'' 100, single_bar ''SPY'' 110]"]
  by (simp add: feed_100_110 GetVolatility_def IsReady_def np_std_def mean_def
        spec_log_returns_def)

lemma Add_window_ok: "window_ok w \<Longrightarrow> window_ok (Add x w)"
  by (auto simp: window_ok_def Add_def min_def)

lemma HV_Update_window_ok: "window_ok (returns v) \<Longrightarrow> window_ok (returns (HV_Update data v))"
  by (auto simp: HV_Update_def Let_def Add_window_ok split: option.splits list.splits)

lemma HV_feed_window_ok: "window_ok (returns v) \<Longrightarrow> window_ok (returns (HV_feed v ds))"
  unfolding HV_feed_def
  by (induction ds arbitrary: v) (simp_all add: HV_Update_window_ok)

lemma HV_feed_Size: "Size (returns (HV_feed v ds)) = Size (returns v)"
  unfolding HV_feed_def
  by (induction ds arbitrary: v)
    (auto simp: HV_Update_def Let_def Add_def split: option.splits list.splits)

lemma zeros_the_Fin:
  "list_all (\<lambda>r. r = Fin 0) fs \<Longrightarrow> list_all is_Fin fs \<and> map the_Fin fs = replicate (length fs) 0"
  by (induction fs) auto

lemma np_std_zeros:
  assumes "fs \<noteq> []" and "list_all (\<lambda>r. r = Fin 0) fs"
  shows "np_std fs = Fin 0"
  using assms zeros_the_Fin [OF assms(2)]
  by (simp add: np_std_def mean_def sum_list_replicate)

text \<open>
  So the volatility of an estimator with a period of at least one is undefined until
  the window is full, and zero from then on, whatever the closes are.
\<close>

lemma GetVolatility_None_or_zero:
  assumes "0 < period"
  shows "GetVolatility (HV_feed (HistoricalVolatility_init s period) ds) = None
         \<or> GetVolatility (HV_feed (HistoricalVolatility_init s period) ds) = Some (Fin 0)"
proof -
  let ?v = "HV_feed (HistoricalVolatility_init s period) ds"
  have "window_ok (returns (HistoricalVolatility_init s period))"
    by (simp add: window_ok_def HistoricalVolatility_init_def RollingWindow_new_def)
  then have ok: "window_ok (returns ?v)" by (rule HV_feed_window_ok)
  have size: "Size (returns ?v) = period"
    by (simp add: HV_feed_Size HistoricalVolatility_init_def RollingWindow_new_def)
  have "all_zero (HistoricalVolatility_init s period)"
    by (simp add: all_zero_def HistoricalVolatility_init_def RollingWindow_new_def)
  then have "all_zero ?v" by (rule HV_feed_all_zero)
  then have zero: "list_all (\<lambda>r. r = Fin 0) (items (returns ?v))"
    by (simp add: all_zero_def)
  show ?thesis
  proof (cases "IsReady (returns ?v)")
    case True
    with ok size assms have "length (items (returns ?v)) = period"
      by (simp add: IsReady_def window_ok_def)
    with assms have "items (returns ?v) \<noteq> []" by auto
    from np_std_zeros [OF this zero] True show ?thesis by (simp add: GetVolatility_def)
  next
    case False
    then show ?thesis by (simp add: GetVolatility_def)
  qed
qed

subsection \<open>Readiness and price checks\<close>

text \<open>
  Claim C5: in every evaluation in which the band indicator or the oscillator does not
  report a signal, or the price is undefined or not positive, the engine returns without
  a position-changing call: it makes no call at all, or only logs the invalid price.
\<close>

theorem Execute_skips:
  assumes "\<not> CBB_HasSignal (ind_contrarian_bands ind) \<or> \<not> RSI_HasSignal (ind_rsi ind)
           \<or> Price (Securities alg (symbol self)) = None
           \<or> (\<exists>p. Price (Securities alg (symbol self)) = Some p \<and> p \<le> 0)"
  shows "(Execute alg self ind = Inr []
          \<or> Execute alg self ind
              = Inr [Debug (InvalidPrice (symbol self) (Price (Securities alg (symbol self))))])
         \<and> (\<exists>calls. Execute alg self ind = Inr calls \<and> orders calls = [])"
  using assms by (auto simp: Execute_def orders_def split: option.splits)

theorem Execute_skips_witness:
  "Execute (one_asset ''SPY'' (Some (- 1)) long_at_100 2000)
     (AssetArbitrageStrategy_init ''SPY'') (ready_indicators 80 90 100 50 95)
   = Inr [Debug (InvalidPrice ''SPY'' (Some (- 1)))]"
  using Execute_skips [of "ready_indicators 80 90 100 50 95"
      "one_asset ''SPY'' (Some (- 1)) long_at_100 2000" "AssetArbitrageStrategy_init ''SPY''"]
  by (simp add: example_defs Execute_def)


subsection \<open>Entries\<close>

text \<open>
  Claim C6: in every evaluation where both indicators are ready, the price is positive,
  the exposure ratio does not exceed the maximum, the position is flat, the price is
  strictly below the lower band, the oscillator is strictly below 30 and the trend
  filter reports an uptrend, the engine makes exactly one call: \<^verbatim>\<open>SetHoldings\<close> with
  the long entry size, which is 0.05 by default.
\<close>

theorem Execute_long_entry:
  assumes "CBB_HasSignal (ind_contrarian_bands ind)" and "RSI_HasSignal (ind_rsi ind)"
    and "Price (Securities alg (symbol self)) = Some price" and "0 < price"
    and "portfolio_exposure alg = Inr exposure" and "exposure \<le> max_portfolio_exposure self"
    and "Quantity (Portfolio alg (symbol self)) = 0"
    and "price < LowerBand (bbands (ind_contrarian_bands ind))"
    and "rsi_Current (rsi (ind_rsi ind)) < 30"
    and "IsUptrend alg (ind_trend ind) = Inr True"
  shows "Execute alg self ind = Inr [SetHoldings (symbol self) (long_trade_size self)]
         \<and> long_trade_size (AssetArbitrageStrategy_init s) = 0.05"
  using assms
  by (simp add: Execute_passed entry_calls_def py_and_def exit_calls_flat
        AssetArbitrageStrategy_init_def)

text \<open>
  The scenario of the specification: no position, price 18, lower band 19, oscillator
  25, the average of the trend filter below the price.
\<close>

theorem Execute_long_entry_witness:
  "Execute (one_asset ''SPY'' (Some 18) flat 1000)
     (AssetArbitrageStrategy_init ''SPY'') (ready_indicators 19 20 21 25 17)
   = Inr [SetHoldings ''SPY'' (5 / 100)]"
  using Execute_long_entry [of "ready_indicators 19 20 21 25 17"
      "one_asset ''SPY'' (Some 18) flat 1000" "AssetArbitrageStrategy_init ''SPY''" 18 0 "''SPY''"]
  by (simp add: example_defs)

text \<open>
  Claim C7: no evaluation makes both the long and the short entry: the calls of an
  evaluation hold at most one \<^verbatim>\<open>SetHoldings\<close>.
\<close>

theorem Execute_at_most_one_entry:
  assumes "Execute alg self ind = Inr calls"
  shows "length (filter is_entry calls) \<le> 1"
proof -
  from Execute_cases [OF assms] show ?thesis
  proof (elim disjE exE conjE)
    fix price entry
    assume e: "entry_calls alg self ind price (Quantity (Portfolio alg (symbol self))) = Inr entry"
      and c: "calls = entry
                 @ long_stop_calls self price (Quantity (Portfolio alg (symbol self)))
                     (AveragePrice (Portfolio alg (symbol self)))
                 @ short_stop_calls self price (Quantity (Portfolio alg (symbol self)))
                     (AveragePrice (Portfolio alg (symbol self)))
                 @ long_exit_calls self ind price (Quantity (Portfolio alg (symbol self)))
                 @ short_exit_calls self ind price (Quantity (Portfolio alg (symbol self)))"
    from entry_calls_cases [OF e] have "length (filter is_entry entry) \<le> 1" by auto
    with c show ?thesis by (simp add: filter_entry_exits)
  qed simp_all
qed

theorem Execute_at_most_one_entry_witness:
  "Execute (one_asset ''SPY'' (Some 24) flat 1000)
     (AssetArbitrageStrategy_init ''SPY'') (ready_indicators 19 20 21 80 30)
   = Inr [SetHoldings ''SPY'' (- (3 / 100))]
   \<and> length (filter is_entry [SetHoldings ''SPY'' (- (3 / 100))]) \<le> 1"
proof -
  have x: "Execute (one_asset ''SPY'' (Some 24) flat 1000)
     (AssetArbitrageStrategy_init ''SPY'') (ready_indicators 19 20 21 80 30)
   = Inr [SetHoldings ''SPY'' (- (3 / 100))]"
    by (simp add: example_defs Execute_defs Let_def)
  from Execute_at_most_one_entry [OF x] x show ?thesis by blast
qed

subsection \<open>The long stop-loss\<close>

text \<open>
  Claim C8, as the specification states it for every long position, fails on the code:
  the exposure gate comes first. A long position bought at 100, at the price 94 (below
  the stop-loss level 95), is not liquidated when the exposure ratio is 0.94.
\<close>

theorem long_stop_loss_blocked_by_exposure:
  "0 < Quantity (Portfolio (one_asset ''SPY'' (Some 94) long_at_100 1000) ''SPY'')
   \<and> 94 < AveragePrice (Portfolio (one_asset ''SPY'' (Some 94) long_at_100 1000) ''SPY'')
            * (1 - long_stop_loss (AssetArbitrageStrategy_init ''SPY''))
   \<and> Execute (one_asset ''SPY'' (Some 94) long_at_100 1000)
        (AssetArbitrageStrategy_init ''SPY'') (ready_indicators 110 120 130 50 95)
      = Inr [Debug (ExposureExceeded ''SPY'' (47 / 50))]
   \<and> orders [Debug (ExposureExceeded ''SPY'' (47 / 50))] = []"
  by (simp add: example_defs Execute_def Let_def orders_def)

text \<open>
  Claim C8, amended: in every evaluation that passes the readiness, price and exposure
  checks, a long position whose price is strictly below the average entry price times
  one minus the long stop-loss fraction is liquidated, whether or not the price is also
  at or above the middle band. The stop-loss statement runs first: its log entry and its
  \<^verbatim>\<open>Liquidate\<close> come before the \<^verbatim>\<open>Liquidate\<close> of the exit, which follows when the
  price is at or above the middle band.
\<close>

theorem Execute_long_stop_loss:
  assumes "CBB_HasSignal (ind_contrarian_bands ind)" and "RSI_HasSignal (ind_rsi ind)"
    and "Price (Securities alg (symbol self)) = Some price" and "0 < price"
    and "portfolio_exposure alg = Inr exposure" and "exposure \<le> max_portfolio_exposure self"
    and "0 < Quantity (Portfolio alg (symbol self))"
    and "price < AveragePrice (Portfolio alg (symbol self)) * (1 - long_stop_loss self)"
  shows "Execute alg self ind =
           Inr (Debug (StopLossLong (symbol self) price) # Liquidate (symbol self) #
                (if MiddleBand (bbands (ind_contrarian_bands ind)) \<le> price
                 then [Liquidate (symbol self)] else []))"
  using assms
  by (simp add: Execute_passed entry_calls_not_flat long_stop_calls_def short_stop_calls_def
        long_exit_calls_def short_exit_calls_def)

text \<open>
  The scenario of the specification: average entry price 100, stop-loss fraction 0.05,
  price 94; here the middle band is above the price.
\<close>

theorem Execute_long_stop_loss_witness:
  "Execute (one_asset ''SPY'' (Some 94) long_at_100 2000)
     (AssetArbitrageStrategy_init ''SPY'') (ready_indicators 110 120 130 50 95)
   = Inr [Debug (StopLossLong ''SPY'' 94), Liquidate ''SPY'']"
  using Execute_long_stop_loss [of "ready_indicators 110 120 130 50 95"
      "one_asset ''SPY'' (Some 94) long_at_100 2000" "AssetArbitrageStrategy_init ''SPY''"
      94 "47 / 100"]
  by (simp add: example_defs)

subsection \<open>The trend filter\<close>

text \<open>
  Claim C9: for every state of the trend filter and every current price, at most one of
  \<^verbatim>\<open>IsUptrend\<close> and \<^verbatim>\<open>IsDowntrend\<close> is true, and both are false when the moving
  average is not ready or the price equals the moving average.
\<close>

theorem TrendFilter_exclusive:
  "(\<not> sma_IsReady (sma tf) \<longrightarrow> IsUptrend alg tf = Inr False \<and> IsDowntrend alg tf = Inr False)
   \<and> (Price (Securities alg (tf_symbol tf)) = Some price \<longrightarrow>
        IsUptrend alg tf = Inr (sma_IsReady (sma tf) \<and> sma_Current (sma tf) < price)
        \<and> IsDowntrend alg tf = Inr (sma_IsReady (sma tf) \<and> price < sma_Current (sma tf))
        \<and> \<not> (IsUptrend alg tf = Inr True \<and> IsDowntrend alg tf = Inr True)
        \<and> (price = sma_Current (sma tf) \<longrightarrow>
              IsUptrend alg tf = Inr False \<and> IsDowntrend alg tf = Inr False))"
  by (auto simp: IsUptrend_def IsDowntrend_def)

theorem TrendFilter_exclusive_witness:
  "IsUptrend (one_asset ''SPY'' (Some 18) flat 1000)
     \<lparr>tf_symbol = ''SPY'', sma = \<lparr>sma_IsReady = True, sma_Current = 17\<rparr>\<rparr> = Inr True
   \<and> IsDowntrend (one_asset ''SPY'' (Some 18) flat 1000)
       \<lparr>tf_symbol = ''SPY'', sma = \<lparr>sma_IsReady = True, sma_Current = 17\<rparr>\<rparr> = Inr False
   \<and> IsUptrend (one_asset ''SPY'' (Some 18) flat 1000)
       \<lparr>tf_symbol = ''SPY'', sma = \<lparr>sma_IsReady = True, sma_Current = 18\<rparr>\<rparr> = Inr False
   \<and> IsDowntrend (one_asset ''SPY'' (Some 18) flat 1000)
       \<lparr>tf_symbol = ''SPY'', sma = \<lparr>sma_IsReady = True, sma_Current = 18\<rparr>\<rparr> = Inr False"
  using
    TrendFilter_exclusive [of "\<lparr>tf_symbol = ''SPY'', sma = \<lparr>sma_IsReady = True, sma_Current = 17\<rparr>\<rparr>"
      "one_asset ''SPY'' (Some 18) flat 1000" 18]
    TrendFilter_exclusive [of "\<lparr>tf_symbol = ''SPY'', sma = \<lparr>sma_IsReady = True, sma_Current = 18\<rparr>\<rparr>"
      "one_asset ''SPY'' (Some 18) flat 1000" 18]
  by (simp add: one_asset_def)

subsection \<open>Updates without a bar\<close>

text \<open>
  Claim C10: for each of the four indicators, \<^verbatim>\<open>Update\<close> with a data collection that
  does not contain the indicator's symbol, or whose entry for that symbol is \<^verbatim>\<open>None\<close>,
  returns the indicator unchanged, whatever the library's own update does.
\<close>

theorem Update_without_bar:
  "(data (cbb_symbol b) = None \<or> data (cbb_symbol b) = Some None
      \<longrightarrow> CBB_Update upd_b data b = b)
   \<and> (data (rsi_symbol r) = None \<or> data (rsi_symbol r) = Some None
      \<longrightarrow> RSI_Update upd_r data r = r)
   \<and> (data (hv_symbol v) = None \<or> data (hv_symbol v) = Some None
      \<longrightarrow> HV_Update data v = v)
   \<and> (data (tf_symbol t) = None \<or> data (tf_symbol t) = Some None
      \<longrightarrow> TF_Update upd_t data t = t)"
  by (auto simp: CBB_Update_def RSI_Update_def HV_Update_def TF_Update_def)

text \<open>
  A collection with a bar for QQQ only, given to the indicators of SPY; the same
  indicators do change on a bar for SPY.
\<close>

theorem Update_without_bar_witness:
  "CBB_Update bb_follow (single_bar ''QQQ'' 7) (ind_contrarian_bands (ready_indicators 19 20 21 25 17))
     = ind_contrarian_bands (ready_indicators 19 20 21 25 17)
   \<and> RSI_Update rsi_follow (single_bar ''QQQ'' 7) (ind_rsi (ready_indicators 19 20 21 25 17))
     = ind_rsi (ready_indicators 19 20 21 25 17)
   \<and> HV_Update (single_bar ''QQQ'' 7) (HistoricalVolatility_init ''SPY'' 20)
     = HistoricalVolatility_init ''SPY'' 20
   \<and> TF_Update sma_follow (single_bar ''QQQ'' 7) (ind_trend (ready_indicators 19 20 21 25 17))
     = ind_trend (ready_indicators 19 20 21 25 17)
   \<and> CBB_Update bb_follow (single_bar ''SPY'' 7) (ind_contrarian_bands (ready_indicators 19 20 21 25 17))
     \<noteq> ind_contrarian_bands (ready_indicators 19 20 21 25 17)
   \<and> HV_Update (single_bar ''SPY'' 7) (HistoricalVolatility_init ''SPY'' 20)
     \<noteq> HistoricalVolatility_init ''SPY'' 20"
  using Update_without_bar [of "single_bar ''QQQ'' 7"
      "ind_contrarian_bands (ready_indicators 19 20 21 25 17)"
      bb_follow "ind_rsi (ready_indicators 19 20 21 25 17)" rsi_follow
      "HistoricalVolatility_init ''SPY'' 20"
      "ind_trend (ready_indicators 19 20 21 25 17)" sma_follow]
  by (simp add: single_bar_def ready_indicators_def symbol_indicators_def
        HistoricalVolatility_init_def RollingWindow_new_def CBB_Update_def HV_Update_def
        bb_follow_def Add_def)

end
